theory Spec2Isabelle
  imports Complex_Main "HOL-Library.Log_Nat"
begin

section \<open>The cart: \<^verbatim>\<open>models/session_state.py\<close>\<close>

text \<open>
  \<^verbatim>\<open>OrderItem\<close> and \<^verbatim>\<open>SessionState\<close> are pydantic models. The price of a line is a
  Python \<^verbatim>\<open>float\<close>; the cart operations only copy it, so the type of prices is a
  parameter \<open>'f\<close> of the model and every statement about the cart holds whatever the
  arithmetic of that type is.
\<close>

record 'f OrderItem =
  item_id :: string
  quantity :: int
  name :: string
  price :: 'f

record 'f SessionState =
  order_items :: "'f OrderItem list"

text \<open>
  \<^verbatim>\<open>existing_item.quantity += n\<close> mutates, in place, the object that
  \<^verbatim>\<open>next(i for i in self.order_items if ...)\<close> returned: the first element of the list that
  satisfies the test. Every line is an object of its own (the tool handler builds a fresh
  \<^verbatim>\<open>OrderItem\<close> for each call), so the mutation is an update of that one position.
\<close>

fun update_first :: "('a \<Rightarrow> bool) \<Rightarrow> ('a \<Rightarrow> 'a) \<Rightarrow> 'a list \<Rightarrow> 'a list" where
  "update_first P f [] = []"
| "update_first P f (x # xs) = (if P x then f x # xs else x # update_first P f xs)"

definition clear_order :: "'f SessionState \<Rightarrow> 'f SessionState" where
  "clear_order s = s\<lparr>order_items := []\<rparr>"

definition add_item :: "'f SessionState \<Rightarrow> 'f OrderItem \<Rightarrow> 'f SessionState" where
  "add_item s item =
     (case find (\<lambda>i. item_id i = item_id item) (order_items s) of
        Some existing_item \<Rightarrow>
          s\<lparr>order_items :=
              update_first (\<lambda>i. item_id i = item_id item)
                (\<lambda>i. i\<lparr>quantity := quantity i + quantity item\<rparr>) (order_items s)\<rparr>
      | None \<Rightarrow> s\<lparr>order_items := order_items s @ [item]\<rparr>)"

text \<open>
  \<^verbatim>\<open>remove_item\<close> returns the boolean and the state it leaves. \<^verbatim>\<open>list.remove\<close> deletes
  the first element equal to its argument, which is \<open>remove1\<close>; the argument is taken
  from the list, so the \<^verbatim>\<open>ValueError\<close> of an absent element cannot occur.
\<close>

definition remove_item ::
  "'f SessionState \<Rightarrow> string \<Rightarrow> int option \<Rightarrow> bool \<times> 'f SessionState" where
  "remove_item s iid qty =
     (case find (\<lambda>item. item_id item = iid) (order_items s) of
        None \<Rightarrow> (False, s)
      | Some item_to_remove \<Rightarrow>
          (case qty of
             None \<Rightarrow> (True, s\<lparr>order_items := remove1 item_to_remove (order_items s)\<rparr>)
           | Some q \<Rightarrow>
               if quantity item_to_remove \<le> q
               then (True, s\<lparr>order_items := remove1 item_to_remove (order_items s)\<rparr>)
               else (True,
                     s\<lparr>order_items :=
                         update_first (\<lambda>item. item_id item = iid)
                           (\<lambda>item. item\<lparr>quantity := quantity item - q\<rparr>) (order_items s)\<rparr>)))"

text \<open>
  The invariant of the data model: every line has a quantity of at least one, and no two
  lines have the same \<open>item_id\<close>.
\<close>

definition cart_inv :: "'f SessionState \<Rightarrow> bool" where
  "cart_inv s \<longleftrightarrow>
     list_all (\<lambda>l. 1 \<le> quantity l) (order_items s) \<and> distinct (map item_id (order_items s))"

text \<open>The quantity a cart holds of an item: that of its first line for the item, or none.\<close>

definition quantity_of :: "'f SessionState \<Rightarrow> string \<Rightarrow> int" where
  "quantity_of s iid =
     (case find (\<lambda>l. item_id l = iid) (order_items s) of None \<Rightarrow> 0 | Some l \<Rightarrow> quantity l)"

section \<open>Floating-point arithmetic as a parameter\<close>

text \<open>
  Prices and totals are Python \<^verbatim>\<open>float\<close>s. The operations the code applies to them are
  taken as a parameter, so that what is proved below holds for every arithmetic, binary64
  included: \<open>zero_f\<close> is \<^verbatim>\<open>0.0\<close>, \<open>of_int_f\<close> is the conversion of an \<^verbatim>\<open>int\<close> operand
  to \<^verbatim>\<open>float\<close>, which raises \<^verbatim>\<open>OverflowError\<close> (\<open>None\<close>) when the integer is too
  large, \<open>add_f\<close> is \<^verbatim>\<open>+\<close>, \<open>mul_f\<close> is \<^verbatim>\<open>*\<close>, \<open>round2_f\<close> is \<^verbatim>\<open>round(x, 2)\<close>,
  \<open>format2_f\<close> is the format \<^verbatim>\<open>{x:.2f}\<close>, and \<open>nonneg_f\<close> is the test \<^verbatim>\<open>x >= 0\<close> of the
  pydantic constraint \<^verbatim>\<open>ge=0\<close>.
\<close>

record 'f float_ops =
  zero_f :: 'f
  of_int_f :: "int \<Rightarrow> 'f option"
  add_f :: "'f \<Rightarrow> 'f \<Rightarrow> 'f"
  mul_f :: "'f \<Rightarrow> 'f \<Rightarrow> 'f"
  round2_f :: "'f \<Rightarrow> 'f"
  format2_f :: "'f \<Rightarrow> string"
  nonneg_f :: "'f \<Rightarrow> bool"

text \<open>
  The exceptions the modelled code can raise: the \<^verbatim>\<open>ValidationError\<close> of pydantic and
  the \<^verbatim>\<open>OverflowError\<close> of \<^verbatim>\<open>float * int\<close>.
\<close>

datatype error = ValidationError | OverflowError

text \<open>
  \<^verbatim>\<open>sum(item.price * item.quantity for item in self.order_items)\<close>: \<^verbatim>\<open>sum\<close> starts from
  \<^verbatim>\<open>0\<close> and adds the terms from left to right; a product \<^verbatim>\<open>price * quantity\<close> converts
  the quantity to \<^verbatim>\<open>float\<close> first, and the exception of that conversion ends the sum.
\<close>

fun sum_from :: "'f float_ops \<Rightarrow> 'f \<Rightarrow> 'f OrderItem list \<Rightarrow> error + 'f" where
  "sum_from ops acc [] = Inr acc"
| "sum_from ops acc (item # items) =
     (case of_int_f ops (quantity item) of
        None \<Rightarrow> Inl OverflowError
      | Some q \<Rightarrow> sum_from ops (add_f ops acc (mul_f ops (price item) q)) items)"

definition calculate_total :: "'f float_ops \<Rightarrow> 'f SessionState \<Rightarrow> error + 'f" where
  "calculate_total ops s = sum_from ops (zero_f ops) (order_items s)"

section \<open>Strings\<close>

text \<open>\<^verbatim>\<open>str(n)\<close> of an \<^verbatim>\<open>int\<close>, as an f-string renders \<^verbatim>\<open>{quantity}\<close>.\<close>

fun str_nat :: "nat \<Rightarrow> string" where
  "str_nat n =
     (if n < 10 then [''0123456789'' ! n]
      else str_nat (n div 10) @ [''0123456789'' ! (n mod 10)])"

definition str_int :: "int \<Rightarrow> string" where
  "str_int i = (if i < 0 then ''-'' @ str_nat (nat (- i)) else str_nat (nat i))"

text \<open>\<^verbatim>\<open>sep.join(xs)\<close>.\<close>

fun join :: "string \<Rightarrow> string list \<Rightarrow> string" where
  "join sep [] = []"
| "join sep [x] = x"
| "join sep (x # y # ys) = x @ sep @ join sep (y # ys)"

text \<open>An item id between apostrophes, as the error messages print it.\<close>

definition quoted :: "string \<Rightarrow> string" where
  "quoted x = [CHR 0x27] @ x @ [CHR 0x27]"

section \<open>The catalog and the order client: \<^verbatim>\<open>services/models.py\<close>, \<^verbatim>\<open>services/burger_api.py\<close>\<close>

record 'f MenuItem =
  id_menu :: string
  name_menu :: string
  description :: string
  price_menu :: 'f
  category :: string

record 'f CreateOrderResponse =
  order_id :: string
  total :: 'f
  status :: string

text \<open>
  An element of the request is the dictionary with the keys \<^verbatim>\<open>item_id\<close> and
  \<^verbatim>\<open>quantity\<close>.
\<close>

type_synonym api_item = "string \<times> int"

text \<open>
  \<^verbatim>\<open>menu_dict = {item["id"]: item for item in MENU_ITEMS}\<close>: a later entry with the same
  id replaces an earlier one.
\<close>

definition menu_dict :: "'f MenuItem list \<Rightarrow> string \<rightharpoonup> 'f MenuItem" where
  "menu_dict MENU_ITEMS = fold (\<lambda>item d. d(id_menu item \<mapsto> item)) MENU_ITEMS Map.empty"

text \<open>
  \<^verbatim>\<open>BurgerAPIClient.create_order\<close>. The table \<^verbatim>\<open>MENU_ITEMS\<close> of
  \<^verbatim>\<open>services/mock_data.py\<close> and the identifier that \<^verbatim>\<open>uuid.uuid4()\<close> draws are
  parameters. The loop adds to \<^verbatim>\<open>total\<close> (here \<open>tot\<close>) the product for each requested line whose
  id is on the menu; the conversion of a quantity can raise here too.
\<close>

fun order_total ::
  "'f float_ops \<Rightarrow> (string \<rightharpoonup> 'f MenuItem) \<Rightarrow> 'f \<Rightarrow> api_item list \<Rightarrow> error + 'f" where
  "order_total ops d tot [] = Inr tot"
| "order_total ops d tot (order_item # items) =
     (case d (fst order_item) of
        None \<Rightarrow> order_total ops d tot items
      | Some item \<Rightarrow>
          (case of_int_f ops (snd order_item) of
             None \<Rightarrow> Inl OverflowError
           | Some q \<Rightarrow>
               order_total ops d (add_f ops tot (mul_f ops (price_menu item) q)) items))"

definition create_order ::
  "'f float_ops \<Rightarrow> 'f MenuItem list \<Rightarrow> string \<Rightarrow> api_item list
   \<Rightarrow> error + 'f CreateOrderResponse" where
  "create_order ops MENU_ITEMS uuid4 items =
     (case order_total ops (menu_dict MENU_ITEMS) (zero_f ops) items of
        Inl e \<Rightarrow> Inl e
      | Inr tot \<Rightarrow>
          Inr \<lparr>order_id = uuid4, total = round2_f ops tot, status = ''confirmed''\<rparr>)"


section \<open>The tool handlers: \<^verbatim>\<open>functions/state_operations.py\<close>, \<^verbatim>\<open>functions/order_operations.py\<close>\<close>

text \<open>
  A handler reads \<^verbatim>\<open>params.arguments\<close>, may change the session state, may push strings
  through \<^verbatim>\<open>params.result_callback\<close>, and returns a string. Its outcome records all
  three: the state it leaves, the strings it delivered through the callback, in order,
  and the string it returned. The callback is taken to return normally. An argument that
  the call omits is \<open>None\<close>. A handler that raises instead of returning gives the
  exception together with the session state it leaves behind (\<open>Inl\<close>).
\<close>

record arguments =
  arg_item_id :: "string option"
  arg_quantity :: "int option"

record 'f outcome =
  session_state :: "'f SessionState"
  delivered :: "string list"
  returned :: string

text \<open>The outcome of \<^verbatim>\<open>create_order\<close> also records the requests sent to the order client.\<close>

record 'f order_outcome = "'f outcome" +
  api_calls :: "api_item list list"

text \<open>
  Building an \<^verbatim>\<open>OrderItem\<close> validates its fields (\<^verbatim>\<open>quantity\<close> with \<^verbatim>\<open>ge=1\<close>,
  \<^verbatim>\<open>price\<close> with \<^verbatim>\<open>ge=0\<close>) and raises \<^verbatim>\<open>ValidationError\<close> when one fails.
\<close>

definition OrderItem ::
  "'f float_ops \<Rightarrow> string \<Rightarrow> int \<Rightarrow> string \<Rightarrow> 'f \<Rightarrow> error + 'f OrderItem" where
  "OrderItem ops iid q n p =
     (if 1 \<le> q \<and> nonneg_f ops p
      then Inr \<lparr>item_id = iid, quantity = q, name = n, price = p\<rparr>
      else Inl ValidationError)"

definition handle_add_item ::
  "'f float_ops \<Rightarrow> 'f MenuItem list \<Rightarrow> 'f SessionState \<Rightarrow> arguments
   \<Rightarrow> (error \<times> 'f SessionState) + 'f outcome" where
  "handle_add_item ops catalog s args =
     (let qty = (case arg_quantity args of None \<Rightarrow> 1 | Some q \<Rightarrow> q) in
      case arg_item_id args of
        None \<Rightarrow> Inr \<lparr>session_state = s, delivered = [], returned = ''Error: item_id is required''\<rparr>
      | Some iid \<Rightarrow>
          if iid = [] then
            Inr \<lparr>session_state = s, delivered = [], returned = ''Error: item_id is required''\<rparr>
          else if qty < 1 then
            Inr \<lparr>session_state = s, delivered = [],
                 returned = ''Error: quantity must be at least 1''\<rparr>
          else
            (case find (\<lambda>item. id_menu item = iid) catalog of
               None \<Rightarrow>
                 Inr \<lparr>session_state = s, delivered = [],
                      returned =
                        ''Error: Item '' @ quoted iid
                        @ '' not found in menu. Available items include: ''
                        @ join '', '' (map id_menu (take 5 catalog))\<rparr>
             | Some menu_item \<Rightarrow>
                 (case OrderItem ops iid qty (name_menu menu_item) (price_menu menu_item) of
                    Inl e \<Rightarrow> Inl (e, s)
                  | Inr order_item \<Rightarrow>
                      let s' = add_item s order_item in
                      (case calculate_total ops s' of
                         Inl e \<Rightarrow> Inl (e, s')
                       | Inr tot \<Rightarrow>
                           let response =
                                 ''Added '' @ str_int qty @ '' '' @ name_menu menu_item
                                 @ ''(s) to your order. Current order total: $''
                                 @ format2_f ops tot
                           in Inr \<lparr>session_state = s', delivered = [response],
                                   returned = response\<rparr>))))"

definition handle_remove_item ::
  "'f float_ops \<Rightarrow> 'f SessionState \<Rightarrow> arguments \<Rightarrow> (error \<times> 'f SessionState) + 'f outcome" where
  "handle_remove_item ops s args =
     (let qty = arg_quantity args in
      case arg_item_id args of
        None \<Rightarrow>
          Inr \<lparr>session_state = s, delivered = [], returned = ''Error: item_id is required''\<rparr>
      | Some iid \<Rightarrow>
          if iid = [] then
            Inr \<lparr>session_state = s, delivered = [], returned = ''Error: item_id is required''\<rparr>
          else
            (case find (\<lambda>item. item_id item = iid) (order_items s) of
               None \<Rightarrow>
                 Inr \<lparr>session_state = s, delivered = [],
                      returned = ''Error: Item '' @ quoted iid @ '' not found in your order''\<rparr>
             | Some item_to_remove \<Rightarrow>
                 let item_name = name item_to_remove;
                     current_quantity = quantity item_to_remove
                 in
                   if (case qty of None \<Rightarrow> False | Some q \<Rightarrow> q < 1) then
                     Inr \<lparr>session_state = s, delivered = [],
                          returned = ''Error: quantity to remove must be at least 1''\<rparr>
                   else
                     (case remove_item s iid qty of
                        (removed, s') \<Rightarrow>
                          if \<not> removed then
                            Inr \<lparr>session_state = s', delivered = [],
                                 returned =
                                   ''Error: Item '' @ quoted iid @ '' not found in your order''\<rparr>
                          else if order_items s' = [] then
                            Inr \<lparr>session_state = s', delivered = [],
                                 returned =
                                   ''Removed all '' @ item_name
                                   @ '' from your order. Your order is now empty.''\<rparr>
                          else
                            (case calculate_total ops s' of
                               Inl e \<Rightarrow> Inl (e, s')
                             | Inr tot \<Rightarrow>
                                 let removed_all =
                                       ''Removed all '' @ item_name
                                       @ '' from your order. Current order total: $''
                                       @ format2_f ops tot;
                                     response =
                                       (case qty of
                                          None \<Rightarrow> removed_all
                                        | Some q \<Rightarrow>
                                            if current_quantity \<le> q then removed_all
                                            else ''Removed '' @ str_int q @ '' '' @ item_name
                                                 @ ''(s) from your order. Current order total: $''
                                                 @ format2_f ops tot)
                                 in Inr \<lparr>session_state = s', delivered = [response],
                                         returned = response\<rparr>))))"

text \<open>
  \<^verbatim>\<open>_handle_create_order\<close>. The order client is the parameter \<open>api\<close>: given the request
  it either raises an exception (\<open>Inl\<close>, any instance of \<^verbatim>\<open>Exception\<close>, which is what
  \<^verbatim>\<open>except Exception\<close> catches) or returns a response (\<open>Inr\<close>).
\<close>

definition handle_create_order ::
  "'f float_ops \<Rightarrow> (api_item list \<Rightarrow> 'e + 'f CreateOrderResponse) \<Rightarrow> 'f SessionState
   \<Rightarrow> 'f order_outcome" where
  "handle_create_order ops api s =
     (if order_items s = [] then
        \<lparr>session_state = s, delivered = [],
         returned = ''Error: Your order is empty. Please add some items before placing your order.'',
         api_calls = []\<rparr>
      else
        let api_items = map (\<lambda>item. (item_id item, quantity item)) (order_items s) in
        case api api_items of
          Inr order_response \<Rightarrow>
            let s' = clear_order s;
                response =
                  ''Order confirmed! Your order ID is '' @ order_id order_response
                  @ ''. Total: $'' @ format2_f ops (total order_response)
                  @ ''. Thank you for your order!''
            in \<lparr>session_state = s', delivered = [response], returned = response,
                api_calls = [api_items]\<rparr>
        | Inl e \<Rightarrow>
            let response =
                  ''Sorry, there was an error processing your order. ''
                  @ ''Your items are still in your cart. Please try again in a moment.''
            in \<lparr>session_state = s, delivered = [response], returned = response,
                api_calls = [api_items]\<rparr>)"

section \<open>An exact decimal arithmetic\<close>

text \<open>
  An instance of the arithmetic, used to run the model on concrete carts: exact rational
  numbers, where no operation rounds and no conversion overflows, with \<^verbatim>\<open>round(x, 2)\<close>
  and \<^verbatim>\<open>{x:.2f}\<close> rounding half to even. It agrees with binary64 wherever the binary64
  operations are exact.
\<close>

definition round_half_even :: "rat \<Rightarrow> int" where
  "round_half_even x =
     (let f = \<lfloor>x\<rfloor>; d = x - of_int f
      in if d < 1 / 2 then f else if 1 / 2 < d then f + 1 else if even f then f else f + 1)"

definition format2_exact :: "rat \<Rightarrow> string" where
  "format2_exact x =
     (let n = nat (round_half_even (\<bar>x\<bar> * 100))
      in (if x < 0 then ''-'' else [])
         @ str_nat (n div 100) @ ''.'' @ str_nat (n mod 100 div 10) @ str_nat (n mod 10))"

definition exact_ops :: "rat float_ops" where
  "exact_ops =
     \<lparr>zero_f = 0, of_int_f = (\<lambda>n. Some (of_int n)), add_f = (+), mul_f = (*),
      round2_f = (\<lambda>x. of_int (round_half_even (x * 100)) / 100),
      format2_f = format2_exact, nonneg_f = (\<lambda>x. 0 \<le> x)\<rparr>"

section \<open>Binary64 arithmetic\<close>


















section \<open>Example data\<close>

text \<open>
  A two-item menu and the cart lines made from it. The prices are dyadic, so that every
  sum and product below is exact in binary64 as well.
\<close>

definition classic_burger :: "rat MenuItem" where
  "classic_burger =
     \<lparr>id_menu = ''burger-001'', name_menu = ''Classic Burger'',
      description = ''Beef patty with lettuce and tomato'', price_menu = 11 / 2,
      category = ''burger''\<rparr>"

definition fries :: "rat MenuItem" where
  "fries =
     \<lparr>id_menu = ''side-001'', name_menu = ''Fries'', description = ''Crispy fries'',
      price_menu = 9 / 4, category = ''side''\<rparr>"

definition burger_line :: "int \<Rightarrow> rat OrderItem" where
  "burger_line q =
     \<lparr>item_id = ''burger-001'', quantity = q, name = ''Classic Burger'', price = 11 / 2\<rparr>"

definition fries_line :: "int \<Rightarrow> rat OrderItem" where
  "fries_line q = \<lparr>item_id = ''side-001'', quantity = q, name = ''Fries'', price = 9 / 4\<rparr>"






text \<open>
  Two order clients: one that raises, and \<^verbatim>\<open>BurgerAPIClient.create_order\<close> over the
  two-item menu, drawing the identifier \<^verbatim>\<open>X\<close>.
\<close>

definition failing_api :: "api_item list \<Rightarrow> string + rat CreateOrderResponse" where
  "failing_api items = Inl ''ConnectionError''"

definition mock_api :: "api_item list \<Rightarrow> error + rat CreateOrderResponse" where
  "mock_api = create_order exact_ops [classic_burger, fries] ''X''"





section \<open>Facts about the cart operations\<close>

declare str_nat.simps [simp del]

lemma update_first_length [simp]: "length (update_first P f xs) = length xs"
  by (induction xs) auto

lemma update_first_map_id:
  "(\<And>x. g (f x) = g x) \<Longrightarrow> map g (update_first P f xs) = map g xs"
  by (induction xs) auto

lemma update_first_ident: "(\<And>x. f x = x) \<Longrightarrow> update_first P f xs = xs"
  by (induction xs) auto

lemma find_update_first:
  "(\<And>x. P (f x) = P x) \<Longrightarrow> find P (update_first P f xs) = map_option f (find P xs)"
  by (induction xs) auto

lemma find_by_id_None: "find (\<lambda>l. g l = k) xs = None \<longleftrightarrow> k \<notin> g ` set xs"
  by (induction xs) auto

lemma find_by_id_Some: "find (\<lambda>l. g l = k) xs = Some l \<Longrightarrow> l \<in> set xs \<and> g l = k"
  by (induction xs) (auto split: if_splits)

lemma filter_by_id_distinct:
  "distinct (map g xs) \<Longrightarrow> find (\<lambda>l. g l = k) xs = Some l \<Longrightarrow> filter (\<lambda>l. g l = k) xs = [l]"
proof (induction xs)
  case Nil
  then show ?case by simp
next
  case (Cons x xs)
  show ?case
  proof (cases "g x = k")
    case True
    with Cons.prems have "x = l" and "k \<notin> g ` set xs" by auto
    then have "filter (\<lambda>l. g l = k) xs = []" by (auto simp: filter_empty_conv)
    with True \<open>x = l\<close> show ?thesis by simp
  next
    case False
    with Cons show ?thesis by simp
  qed
qed

lemma remove1_found_no_id:
  "distinct (map g xs) \<Longrightarrow> find (\<lambda>l. g l = k) xs = Some l \<Longrightarrow> k \<notin> g ` set (remove1 l xs)"
proof (induction xs)
  case Nil
  then show ?case by simp
next
  case (Cons x xs)
  show ?case
  proof (cases "g x = k")
    case True
    with Cons.prems show ?thesis by auto
  next
    case False
    with Cons.prems have "find (\<lambda>l. g l = k) xs = Some l" and "x \<noteq> l"
      by (auto dest: find_by_id_Some)
    with Cons False show ?thesis by auto
  qed
qed

lemma list_all_remove1: "list_all Q xs \<Longrightarrow> list_all Q (remove1 x xs)"
  by (induction xs) auto

lemma distinct_map_remove1: "distinct (map g xs) \<Longrightarrow> distinct (map g (remove1 x xs))"
proof (induction xs)
  case Nil
  then show ?case by simp
next
  case (Cons y ys)
  have "set (remove1 x ys) \<subseteq> set ys" by (rule set_remove1_subset)
  with Cons show ?case by auto
qed

lemma list_all_update_found:
  "list_all Q xs \<Longrightarrow> find P xs = Some l \<Longrightarrow> Q (f l) \<Longrightarrow> list_all Q (update_first P f xs)"
  by (induction xs) (auto split: if_splits)

lemma find_append_last:
  "find P (xs @ [a]) =
     (case find P xs of None \<Rightarrow> (if P a then Some a else None) | Some x \<Rightarrow> Some x)"
  by (induction xs) auto

lemma filter_neg_remove1:
  "P l \<Longrightarrow> filter (\<lambda>x. \<not> P x) (remove1 l xs) = filter (\<lambda>x. \<not> P x) xs"
  by (induction xs) auto

lemma filter_other_update_quantity:
  "filter (\<lambda>x. item_id x \<noteq> i)
     (update_first (\<lambda>l. item_id l = i) (\<lambda>l. l\<lparr>quantity := g l\<rparr>) xs)
   = filter (\<lambda>x. item_id x \<noteq> i) xs"
  by (induction xs) auto

lemma add_item_present:
  "find (\<lambda>l. item_id l = item_id a) (order_items s) = Some l \<Longrightarrow>
   order_items (add_item s a) =
     update_first (\<lambda>l. item_id l = item_id a) (\<lambda>l. l\<lparr>quantity := quantity l + quantity a\<rparr>)
       (order_items s)"
  by (simp add: add_item_def)

lemma add_item_absent:
  "find (\<lambda>l. item_id l = item_id a) (order_items s) = None \<Longrightarrow>
   order_items (add_item s a) = order_items s @ [a]"
  by (simp add: add_item_def)

lemma find_add_item:
  "find (\<lambda>l. item_id l = item_id a) (order_items (add_item s a)) =
     Some (case find (\<lambda>l. item_id l = item_id a) (order_items s) of
             None \<Rightarrow> a | Some l \<Rightarrow> l\<lparr>quantity := quantity l + quantity a\<rparr>)"
proof (cases "find (\<lambda>l. item_id l = item_id a) (order_items s)")
  case None
  then show ?thesis by (simp add: add_item_absent find_append_last)
next
  case (Some l)
  then show ?thesis by (simp add: add_item_present find_update_first)
qed

lemma quantity_of_add_item:
  "quantity_of (add_item s a) (item_id a) = quantity_of s (item_id a) + quantity a"
  by (simp add: quantity_of_def find_add_item split: option.splits)

lemma distinct_add_item:
  assumes "distinct (map item_id (order_items s))"
  shows "distinct (map item_id (order_items (add_item s a)))"
proof (cases "find (\<lambda>l. item_id l = item_id a) (order_items s)")
  case None
  then have "item_id a \<notin> item_id ` set (order_items s)" by (simp add: find_by_id_None)
  with assms None show ?thesis by (simp add: add_item_absent)
next
  case (Some l)
  with assms show ?thesis by (simp add: add_item_present update_first_map_id)
qed

lemma remove_item_absent:
  "find (\<lambda>x. item_id x = i) (order_items s) = None \<Longrightarrow> remove_item s i qo = (False, s)"
  by (simp add: remove_item_def)

lemma remove_item_delete:
  "find (\<lambda>x. item_id x = i) (order_items s) = Some l \<Longrightarrow>
   (case qo of None \<Rightarrow> True | Some q \<Rightarrow> quantity l \<le> q) \<Longrightarrow>
   remove_item s i qo = (True, s\<lparr>order_items := remove1 l (order_items s)\<rparr>)"
  by (simp add: remove_item_def split: option.splits)

lemma remove_item_decrement:
  "find (\<lambda>x. item_id x = i) (order_items s) = Some l \<Longrightarrow> q < quantity l \<Longrightarrow>
   remove_item s i (Some q) =
     (True, s\<lparr>order_items :=
               update_first (\<lambda>x. item_id x = i) (\<lambda>x. x\<lparr>quantity := quantity x - q\<rparr>)
                 (order_items s)\<rparr>)"
  by (simp add: remove_item_def)

lemma find_update_quantity:
  "find (\<lambda>x. item_id x = i)
     (update_first (\<lambda>x. item_id x = i) (\<lambda>x. x\<lparr>quantity := g x\<rparr>) xs)
   = map_option (\<lambda>x. x\<lparr>quantity := g x\<rparr>) (find (\<lambda>x. item_id x = i) xs)"
  by (induction xs) auto

lemma map_item_id_update_quantity:
  "map item_id (update_first P (\<lambda>x. x\<lparr>quantity := g x\<rparr>) xs) = map item_id xs"
  by (induction xs) auto


subsection \<open>The total of the order client\<close>



subsection \<open>The total in exact arithmetic and in binary64\<close>



subsection \<open>What the handlers deliver\<close>

text \<open>
  A handler calls the callback at most once, and then with the string it returns.
\<close>

lemma handle_add_item_delivered:
  "handle_add_item ops catalog s args = Inr r \<Longrightarrow>
   delivered r = [] \<or> delivered r = [returned r]"
  by (auto simp: handle_add_item_def Let_def split: option.splits if_splits sum.splits)

lemma handle_remove_item_delivered:
  "handle_remove_item ops s args = Inr r \<Longrightarrow>
   delivered r = [] \<or> delivered r = [returned r]"
  by (auto simp: handle_remove_item_def Let_def
      split: option.splits if_splits sum.splits prod.splits)

lemma handle_create_order_delivered:
  "delivered (handle_create_order ops api s) = []
   \<or> delivered (handle_create_order ops api s) = [returned (handle_create_order ops api s)]"
  by (simp add: handle_create_order_def Let_def split: sum.split)

section \<open>The claims\<close>

subsection \<open>C4: adding the same item twice merges\<close>

text \<open>
  C4. On a cart whose lines have distinct item ids, adding an item with id \<open>i\<close> and then
  another item with the same id leaves exactly one line for \<open>i\<close>. Its quantity is the sum
  of the two added quantities and of the quantity the cart held of \<open>i\<close> before; the second
  add does not lengthen the cart, and the lines of the other items are as they were.
\<close>

theorem add_item_twice_merges:
  assumes "distinct (map item_id (order_items s))"
    and "item_id a = i" and "item_id b = i"
  shows "\<exists>l. filter (\<lambda>x. item_id x = i) (order_items (add_item (add_item s a) b)) = [l]
           \<and> quantity l = quantity a + quantity b + quantity_of s i
           \<and> length (order_items (add_item (add_item s a) b))
               = length (order_items (add_item s a))
           \<and> filter (\<lambda>x. item_id x \<noteq> i) (order_items (add_item (add_item s a) b))
               = filter (\<lambda>x. item_id x \<noteq> i) (order_items s)"
proof -
  let ?s1 = "add_item s a" and ?s2 = "add_item (add_item s a) b"
  obtain l1 where l1: "find (\<lambda>l. item_id l = i) (order_items ?s1) = Some l1"
    using find_add_item [of a s] assms(2) by simp
  obtain l2 where l2: "find (\<lambda>l. item_id l = i) (order_items ?s2) = Some l2"
    using find_add_item [of b ?s1] assms(3) by simp
  have "distinct (map item_id (order_items ?s2))"
    by (intro distinct_add_item assms(1))
  then have one: "filter (\<lambda>x. item_id x = i) (order_items ?s2) = [l2]"
    using l2 by (rule filter_by_id_distinct)
  have "quantity_of ?s2 i = quantity_of s i + quantity a + quantity b"
    using quantity_of_add_item [of ?s1 b] quantity_of_add_item [of s a] assms(2,3) by simp
  with l2 have qty: "quantity l2 = quantity a + quantity b + quantity_of s i"
    by (simp add: quantity_of_def)
  have s2: "order_items ?s2 =
      update_first (\<lambda>l. item_id l = i) (\<lambda>l. l\<lparr>quantity := quantity l + quantity b\<rparr>)
        (order_items ?s1)"
    using add_item_present [of b ?s1 l1] l1 assms(3) by simp
  then have len: "length (order_items ?s2) = length (order_items ?s1)" by simp
  have "filter (\<lambda>x. item_id x \<noteq> i) (order_items ?s1)
      = filter (\<lambda>x. item_id x \<noteq> i) (order_items s)"
  proof (cases "find (\<lambda>l. item_id l = item_id a) (order_items s)")
    case None
    then show ?thesis using assms(2) by (simp add: add_item_absent)
  next
    case (Some l)
    then show ?thesis
      using assms(2) by (simp add: add_item_present filter_other_update_quantity)
  qed
  moreover have "filter (\<lambda>x. item_id x \<noteq> i) (order_items ?s2)
      = filter (\<lambda>x. item_id x \<noteq> i) (order_items ?s1)"
    by (simp add: s2 filter_other_update_quantity)
  ultimately show ?thesis using one qty len by simp
qed

text \<open>
  On the cart of one burger and one portion of fries, adding two burgers and then one more
  gives a single burger line of quantity four.
\<close>

theorem add_item_twice_merges_witness:
  "distinct (map item_id (order_items \<lparr>order_items = [burger_line 1, fries_line 1]\<rparr>))
   \<and> item_id (burger_line 2) = ''burger-001'' \<and> item_id (burger_line 1) = ''burger-001''
   \<and> order_items
        (add_item (add_item \<lparr>order_items = [burger_line 1, fries_line 1]\<rparr> (burger_line 2))
           (burger_line 1))
      = [burger_line 4, fries_line 1]
   \<and> (\<exists>l. filter (\<lambda>x. item_id x = ''burger-001'')
              (order_items
                 (add_item (add_item \<lparr>order_items = [burger_line 1, fries_line 1]\<rparr>
                    (burger_line 2)) (burger_line 1))) = [l]
          \<and> quantity l
             = 2 + 1 + quantity_of \<lparr>order_items = [burger_line 1, fries_line 1]\<rparr> ''burger-001'')"
proof -
  let ?s = "\<lparr>order_items = [burger_line 1, fries_line 1]\<rparr>"
  have d: "distinct (map item_id (order_items ?s))"
    by (simp add: burger_line_def fries_line_def)
  have a: "item_id (burger_line 2) = ''burger-001''"
    and b: "item_id (burger_line 1) = ''burger-001''"
    by (simp_all add: burger_line_def)
  have run: "order_items (add_item (add_item ?s (burger_line 2)) (burger_line 1))
      = [burger_line 4, fries_line 1]"
    by (simp add: add_item_def burger_line_def fries_line_def)
  from add_item_twice_merges [OF d a b] d a b run show ?thesis
    by (simp add: burger_line_def)
qed


subsection \<open>C5: removal\<close>

text \<open>
  C5. On a cart whose lines have distinct item ids, with \<open>l\<close> the line of item \<open>i\<close>:
  removing a quantity \<open>q\<close> with \<open>1 \<le> q\<close> and \<open>q\<close> below the line's quantity returns
  \<open>True\<close>, keeps the line in its place with its quantity lowered by \<open>q\<close>, and touches no
  other line; removing with the quantity omitted, or at least the line's quantity, returns
  \<open>True\<close> and deletes the line, so that no line for \<open>i\<close> is left and the other lines are
  as they were; removing an id that has no line returns \<open>False\<close> and leaves the cart as
  it was.
\<close>

theorem remove_item_correct:
  assumes "distinct (map item_id (order_items s))"
  shows "(find (\<lambda>x. item_id x = i) (order_items s) = Some l \<and> 1 \<le> q \<and> q < quantity l \<longrightarrow>
            fst (remove_item s i (Some q))
            \<and> filter (\<lambda>x. item_id x = i) (order_items (snd (remove_item s i (Some q))))
                = [l\<lparr>quantity := quantity l - q\<rparr>]
            \<and> map item_id (order_items (snd (remove_item s i (Some q))))
                = map item_id (order_items s)
            \<and> filter (\<lambda>x. item_id x \<noteq> i) (order_items (snd (remove_item s i (Some q))))
                = filter (\<lambda>x. item_id x \<noteq> i) (order_items s))
       \<and> (find (\<lambda>x. item_id x = i) (order_items s) = Some l
            \<and> (case qo of None \<Rightarrow> True | Some q' \<Rightarrow> quantity l \<le> q') \<longrightarrow>
            fst (remove_item s i qo)
            \<and> order_items (snd (remove_item s i qo)) = remove1 l (order_items s)
            \<and> filter (\<lambda>x. item_id x = i) (order_items (snd (remove_item s i qo))) = []
            \<and> filter (\<lambda>x. item_id x \<noteq> i) (order_items (snd (remove_item s i qo)))
                = filter (\<lambda>x. item_id x \<noteq> i) (order_items s))
       \<and> (find (\<lambda>x. item_id x = i) (order_items s) = None \<longrightarrow>
            remove_item s i qo = (False, s))"
proof (intro conjI impI)
  assume h: "find (\<lambda>x. item_id x = i) (order_items s) = Some l \<and> 1 \<le> q \<and> q < quantity l"
  let ?xs = "update_first (\<lambda>x. item_id x = i) (\<lambda>x. x\<lparr>quantity := quantity x - q\<rparr>) (order_items s)"
  from h have r: "remove_item s i (Some q) = (True, s\<lparr>order_items := ?xs\<rparr>)"
    by (simp add: remove_item_decrement)
  show "fst (remove_item s i (Some q))" by (simp add: r)
  show ids: "map item_id (order_items (snd (remove_item s i (Some q)))) = map item_id (order_items s)"
    by (simp add: r map_item_id_update_quantity)
  have "find (\<lambda>x. item_id x = i) ?xs = Some (l\<lparr>quantity := quantity l - q\<rparr>)"
    using h by (simp add: find_update_quantity)
  moreover have "distinct (map item_id ?xs)"
    using assms by (simp add: map_item_id_update_quantity)
  ultimately have "filter (\<lambda>x. item_id x = i) ?xs = [l\<lparr>quantity := quantity l - q\<rparr>]"
    by (intro filter_by_id_distinct)
  then show "filter (\<lambda>x. item_id x = i) (order_items (snd (remove_item s i (Some q))))
      = [l\<lparr>quantity := quantity l - q\<rparr>]"
    by (simp add: r)
  show "filter (\<lambda>x. item_id x \<noteq> i) (order_items (snd (remove_item s i (Some q))))
      = filter (\<lambda>x. item_id x \<noteq> i) (order_items s)"
    by (simp add: r filter_other_update_quantity)
next
  assume h: "find (\<lambda>x. item_id x = i) (order_items s) = Some l
      \<and> (case qo of None \<Rightarrow> True | Some q' \<Rightarrow> quantity l \<le> q')"
  then have r: "remove_item s i qo = (True, s\<lparr>order_items := remove1 l (order_items s)\<rparr>)"
    by (simp add: remove_item_delete)
  show "fst (remove_item s i qo)" by (simp add: r)
  show "order_items (snd (remove_item s i qo)) = remove1 l (order_items s)" by (simp add: r)
  have "i \<notin> item_id ` set (remove1 l (order_items s))"
    using assms h by (intro remove1_found_no_id) simp_all
  then show "filter (\<lambda>x. item_id x = i) (order_items (snd (remove_item s i qo))) = []"
    by (auto simp: r filter_empty_conv)
  have "item_id l = i" using h by (auto dest: find_by_id_Some)
  then show "filter (\<lambda>x. item_id x \<noteq> i) (order_items (snd (remove_item s i qo)))
      = filter (\<lambda>x. item_id x \<noteq> i) (order_items s)"
    using filter_neg_remove1 [of "\<lambda>x. item_id x = i" l "order_items s"] by (simp add: r)
next
  assume "find (\<lambda>x. item_id x = i) (order_items s) = None"
  then show "remove_item s i qo = (False, s)" by (rule remove_item_absent)
qed

text \<open>
  From three burgers and one portion of fries: removing one burger leaves two, removing
  three or removing without a quantity deletes the burger line, and removing a drink that
  is not in the cart reports \<open>False\<close>.
\<close>

theorem remove_item_correct_witness:
  "distinct (map item_id (order_items \<lparr>order_items = [burger_line 3, fries_line 1]\<rparr>))
   \<and> find (\<lambda>x. item_id x = ''burger-001'') [burger_line 3, fries_line 1] = Some (burger_line 3)
   \<and> (1::int) \<le> 1 \<and> 1 < quantity (burger_line 3)
   \<and> fst (remove_item \<lparr>order_items = [burger_line 3, fries_line 1]\<rparr> ''burger-001'' (Some 1))
   \<and> filter (\<lambda>x. item_id x = ''burger-001'')
        (order_items
           (snd (remove_item \<lparr>order_items = [burger_line 3, fries_line 1]\<rparr> ''burger-001''
              (Some 1))))
      = [burger_line 2]
   \<and> remove_item \<lparr>order_items = [burger_line 3, fries_line 1]\<rparr> ''burger-001'' (Some 1)
      = (True, \<lparr>order_items = [burger_line 2, fries_line 1]\<rparr>)
   \<and> quantity (burger_line 3) \<le> 3
   \<and> remove_item \<lparr>order_items = [burger_line 3, fries_line 1]\<rparr> ''burger-001'' (Some 3)
      = (True, \<lparr>order_items = [fries_line 1]\<rparr>)
   \<and> remove_item \<lparr>order_items = [burger_line 3, fries_line 1]\<rparr> ''burger-001'' None
      = (True, \<lparr>order_items = [fries_line 1]\<rparr>)
   \<and> find (\<lambda>x. item_id x = ''drink-001'') [burger_line 3, fries_line 1] = None
   \<and> remove_item \<lparr>order_items = [burger_line 3, fries_line 1]\<rparr> ''drink-001'' (Some 1)
      = (False, \<lparr>order_items = [burger_line 3, fries_line 1]\<rparr>)"
proof -
  let ?s = "\<lparr>order_items = [burger_line 3, fries_line 1]\<rparr>"
  have d: "distinct (map item_id (order_items ?s))"
    by (simp add: burger_line_def fries_line_def)
  have f: "find (\<lambda>x. item_id x = ''burger-001'') [burger_line 3, fries_line 1]
      = Some (burger_line 3)"
    and n: "find (\<lambda>x. item_id x = ''drink-001'') [burger_line 3, fries_line 1] = None"
    by (simp_all add: burger_line_def fries_line_def)
  have q: "quantity (burger_line 3) = 3" by (simp add: burger_line_def)
  have u: "burger_line 3\<lparr>quantity := 3 - 1\<rparr> = burger_line 2" by (simp add: burger_line_def)
  have r1: "remove1 (burger_line 3) [burger_line 3, fries_line 1] = [fries_line 1]" by simp
  have e: "remove_item ?s ''burger-001'' (Some 1)
      = (True, \<lparr>order_items = [burger_line 2, fries_line 1]\<rparr>)"
    by (simp add: remove_item_def burger_line_def fries_line_def)
  from remove_item_correct [OF d, of "''burger-001''" "burger_line 3" 1 "Some 3"]
    remove_item_correct [OF d, of "''burger-001''" "burger_line 3" 1 None]
    remove_item_correct [OF d, of "''drink-001''" "burger_line 3" 1 "Some 1"]
    d f n q u r1 e
  show ?thesis by (simp add: prod_eq_iff)
qed

subsection \<open>C6: the invariant of the cart\<close>

text \<open>
  C6. A cart in which every line has a quantity of at least one and no two lines share
  an item id is again such a cart after \<open>add_item\<close> of a line whose quantity is at least
  one (what the constraint \<^verbatim>\<open>ge=1\<close> of \<^verbatim>\<open>OrderItem\<close> admits), after \<open>remove_item\<close>
  with any item id and any quantity, given or omitted, and after \<open>clear_order\<close>. In
  particular no line of quantity zero is kept.
\<close>

theorem cart_inv_preserved:
  assumes "cart_inv s"
  shows "(1 \<le> quantity item \<longrightarrow> cart_inv (add_item s item))
       \<and> cart_inv (snd (remove_item s i qo))
       \<and> cart_inv (clear_order s)"
proof (intro conjI impI)
  from assms have q: "list_all (\<lambda>l. 1 \<le> quantity l) (order_items s)"
    and d: "distinct (map item_id (order_items s))"
    by (simp_all add: cart_inv_def)
  show "cart_inv (clear_order s)" by (simp add: cart_inv_def clear_order_def)
  show "cart_inv (add_item s item)" if pos: "1 \<le> quantity item"
  proof (cases "find (\<lambda>l. item_id l = item_id item) (order_items s)")
    case None
    with q pos distinct_add_item [OF d, of item] show ?thesis
      by (simp add: cart_inv_def add_item_absent)
  next
    case (Some l)
    then have "l \<in> set (order_items s)" by (auto dest: find_by_id_Some)
    with q have "1 \<le> quantity l" by (simp add: list_all_iff)
    with pos have "1 \<le> quantity (l\<lparr>quantity := quantity l + quantity item\<rparr>)" by simp
    with q Some have "list_all (\<lambda>l. 1 \<le> quantity l) (order_items (add_item s item))"
      by (simp add: add_item_present list_all_update_found)
    with distinct_add_item [OF d, of item] show ?thesis by (simp add: cart_inv_def)
  qed
  show "cart_inv (snd (remove_item s i qo))"
  proof (cases "find (\<lambda>x. item_id x = i) (order_items s)")
    case None
    with assms show ?thesis by (simp add: remove_item_absent)
  next
    case (Some l)
    show ?thesis
    proof (cases "case qo of None \<Rightarrow> True | Some q' \<Rightarrow> quantity l \<le> q'")
      case True
      with Some q d show ?thesis
        by (simp add: remove_item_delete cart_inv_def list_all_remove1 distinct_map_remove1)
    next
      case False
      then obtain q' where qo: "qo = Some q'" and lt: "q' < quantity l"
        by (auto split: option.splits)
      from lt have "1 \<le> quantity (l\<lparr>quantity := quantity l - q'\<rparr>)" by simp
      with q Some have "list_all (\<lambda>l. 1 \<le> quantity l)
          (update_first (\<lambda>x. item_id x = i) (\<lambda>x. x\<lparr>quantity := quantity x - q'\<rparr>) (order_items s))"
        by (intro list_all_update_found)
      with Some lt d show ?thesis
        by (simp add: qo remove_item_decrement cart_inv_def map_item_id_update_quantity)
    qed
  qed
qed

theorem cart_inv_preserved_witness:
  "cart_inv \<lparr>order_items = [burger_line 3, fries_line 1]\<rparr>
   \<and> 1 \<le> quantity (burger_line 2)
   \<and> cart_inv (add_item \<lparr>order_items = [burger_line 3, fries_line 1]\<rparr> (burger_line 2))
   \<and> cart_inv (snd (remove_item \<lparr>order_items = [burger_line 3, fries_line 1]\<rparr> ''burger-001''
        (Some 3)))
   \<and> cart_inv (clear_order \<lparr>order_items = [burger_line 3, fries_line 1]\<rparr>)"
proof -
  have inv: "cart_inv \<lparr>order_items = [burger_line 3, fries_line 1]\<rparr>"
    by (simp add: cart_inv_def burger_line_def fries_line_def)
  have pos: "1 \<le> quantity (burger_line 2)" by (simp add: burger_line_def)
  from cart_inv_preserved [OF inv, of "burger_line 2" "''burger-001''" "Some 3"] inv pos
  show ?thesis by simp
qed


subsection \<open>C10: the cart method does not validate the quantity to remove\<close>

text \<open>
  C10. For a cart whose line \<open>l\<close> of item \<open>i\<close> has a quantity of at least one, and a
  quantity \<open>q \<le> 0\<close>: \<open>remove_item\<close> returns \<open>True\<close> and lowers the line's quantity by
  \<open>q\<close>, that is, leaves the cart as it was when \<open>q = 0\<close> and raises the quantity when
  \<open>q < 0\<close>. The tool handler, called with the same arguments, rejects them with an error
  string before it reaches the cart method, and leaves the cart as it was.
\<close>

theorem remove_item_nonpositive_quantity:
  assumes "find (\<lambda>x. item_id x = i) (order_items s) = Some l"
    and "1 \<le> quantity l" and "q \<le> 0"
  shows "remove_item s i (Some q) =
           (True, s\<lparr>order_items :=
                     update_first (\<lambda>x. item_id x = i) (\<lambda>x. x\<lparr>quantity := quantity x - q\<rparr>)
                       (order_items s)\<rparr>)
       \<and> find (\<lambda>x. item_id x = i) (order_items (snd (remove_item s i (Some q))))
           = Some (l\<lparr>quantity := quantity l - q\<rparr>)
       \<and> quantity_of (snd (remove_item s i (Some q))) i = quantity_of s i - q
       \<and> (q = 0 \<longrightarrow> snd (remove_item s i (Some q)) = s)
       \<and> (q < 0 \<longrightarrow> quantity_of s i < quantity_of (snd (remove_item s i (Some q))) i)
       \<and> (i \<noteq> [] \<longrightarrow>
            handle_remove_item ops s \<lparr>arg_item_id = Some i, arg_quantity = Some q\<rparr>
              = Inr \<lparr>session_state = s, delivered = [],
                     returned = ''Error: quantity to remove must be at least 1''\<rparr>)"
proof -
  from assms have lt: "q < quantity l" by simp
  note r = remove_item_decrement [OF assms(1) lt]
  have f: "find (\<lambda>x. item_id x = i) (order_items (snd (remove_item s i (Some q))))
      = Some (l\<lparr>quantity := quantity l - q\<rparr>)"
    using assms(1) by (simp add: r find_update_quantity)
  then have qo: "quantity_of (snd (remove_item s i (Some q))) i = quantity_of s i - q"
    using assms(1) by (simp add: quantity_of_def)
  have z: "snd (remove_item s i (Some q)) = s" if "q = 0"
    unfolding r using that by (simp add: update_first_ident)
  have h: "handle_remove_item ops s \<lparr>arg_item_id = Some i, arg_quantity = Some q\<rparr>
      = Inr \<lparr>session_state = s, delivered = [],
             returned = ''Error: quantity to remove must be at least 1''\<rparr>" if "i \<noteq> []"
    using that assms(1,3) by (simp add: handle_remove_item_def)
  from r f qo z h show ?thesis by simp
qed

text \<open>Removing \<open>-3\<close> burgers from a cart of two leaves five.\<close>

theorem remove_item_nonpositive_quantity_witness:
  "find (\<lambda>x. item_id x = ''burger-001'') (order_items \<lparr>order_items = [burger_line 2]\<rparr>)
     = Some (burger_line 2)
   \<and> 1 \<le> quantity (burger_line 2) \<and> (- 3 :: int) \<le> 0
   \<and> remove_item \<lparr>order_items = [burger_line 2]\<rparr> ''burger-001'' (Some (- 3))
      = (True, \<lparr>order_items = [burger_line 5]\<rparr>)
   \<and> quantity_of (snd (remove_item \<lparr>order_items = [burger_line 2]\<rparr> ''burger-001'' (Some (- 3))))
        ''burger-001'' = 5
   \<and> handle_remove_item exact_ops \<lparr>order_items = [burger_line 2]\<rparr>
        \<lparr>arg_item_id = Some ''burger-001'', arg_quantity = Some (- 3)\<rparr>
      = Inr \<lparr>session_state = \<lparr>order_items = [burger_line 2]\<rparr>, delivered = [],
             returned = ''Error: quantity to remove must be at least 1''\<rparr>"
proof -
  have f: "find (\<lambda>x. item_id x = ''burger-001'') (order_items \<lparr>order_items = [burger_line 2]\<rparr>)
      = Some (burger_line 2)"
    by (simp add: burger_line_def)
  have q: "1 \<le> quantity (burger_line 2)" by (simp add: burger_line_def)
  have n: "(- 3 :: int) \<le> 0" by simp
  have u: "update_first (\<lambda>x. item_id x = ''burger-001'') (\<lambda>x. x\<lparr>quantity := quantity x - (- 3)\<rparr>)
      [burger_line 2] = [burger_line 5]"
    by (simp add: burger_line_def)
  have qo: "quantity_of \<lparr>order_items = [burger_line 2]\<rparr> ''burger-001'' = 2"
    by (simp add: quantity_of_def burger_line_def)
  note t = remove_item_nonpositive_quantity [OF f q n, of exact_ops]
  from t have "remove_item \<lparr>order_items = [burger_line 2]\<rparr> ''burger-001'' (Some (- 3))
      = (True, \<lparr>order_items = [burger_line 2]\<rparr>\<lparr>order_items :=
          update_first (\<lambda>x. item_id x = ''burger-001'') (\<lambda>x. x\<lparr>quantity := quantity x - (- 3)\<rparr>)
            (order_items \<lparr>order_items = [burger_line 2]\<rparr>)\<rparr>)"
    by (rule conjunct1)
  with u have t1: "remove_item \<lparr>order_items = [burger_line 2]\<rparr> ''burger-001'' (Some (- 3))
      = (True, \<lparr>order_items = [burger_line 5]\<rparr>)"
    by simp
  from t have
    "quantity_of (snd (remove_item \<lparr>order_items = [burger_line 2]\<rparr> ''burger-001'' (Some (- 3))))
       ''burger-001'' = quantity_of \<lparr>order_items = [burger_line 2]\<rparr> ''burger-001'' - (- 3)"
    by (elim conjE)
  with qo have t2:
    "quantity_of (snd (remove_item \<lparr>order_items = [burger_line 2]\<rparr> ''burger-001'' (Some (- 3))))
       ''burger-001'' = 5"
    by simp
  from t have t3: "handle_remove_item exact_ops \<lparr>order_items = [burger_line 2]\<rparr>
        \<lparr>arg_item_id = Some ''burger-001'', arg_quantity = Some (- 3)\<rparr>
      = Inr \<lparr>session_state = \<lparr>order_items = [burger_line 2]\<rparr>, delivered = [],
             returned = ''Error: quantity to remove must be at least 1''\<rparr>"
    by simp
  from f q n t1 t2 t3 show ?thesis by blast
qed


subsection \<open>C9: the tool \<^verbatim>\<open>add_item_to_order\<close>\<close>





subsection \<open>C3: \<^verbatim>\<open>create_order\<close> on an empty cart\<close>

text \<open>
  C3. On an empty cart, whatever the order client is, \<^verbatim>\<open>create_order\<close> sends no request
  to it, leaves the cart as it was (empty), and returns the string that says the order is
  empty.
\<close>

theorem create_order_empty_cart:
  assumes "order_items s = []"
  shows "handle_create_order ops api s =
           \<lparr>session_state = s, delivered = [],
            returned =
              ''Error: Your order is empty. Please add some items before placing your order.'',
            api_calls = []\<rparr>"
  using assms by (simp add: handle_create_order_def)

theorem create_order_empty_cart_witness:
  "order_items \<lparr>order_items = ([] :: rat OrderItem list)\<rparr> = []
   \<and> api_calls (handle_create_order exact_ops mock_api \<lparr>order_items = []\<rparr>) = []
   \<and> session_state (handle_create_order exact_ops mock_api \<lparr>order_items = []\<rparr>)
       = \<lparr>order_items = []\<rparr>
   \<and> returned (handle_create_order exact_ops mock_api \<lparr>order_items = []\<rparr>)
       = ''Error: Your order is empty. Please add some items before placing your order.''"
proof -
  have e: "order_items \<lparr>order_items = ([] :: rat OrderItem list)\<rparr> = []" by simp
  from create_order_empty_cart
      [where api = mock_api and s = "\<lparr>order_items = []\<rparr>" and ops = exact_ops, OF e]
  show ?thesis by simp
qed

subsection \<open>C1: a failed submission keeps the cart\<close>

text \<open>
  C1. On a non-empty cart, when the order client raises an exception on the request,
  \<^verbatim>\<open>create_order\<close> leaves the session state, and so the list of lines, exactly as it was,
  and returns the apology string as an ordinary result, which it also delivers through
  the callback; the request was sent once and mirrors the cart.
\<close>

theorem create_order_failure_preserves_cart:
  assumes "order_items s \<noteq> []"
    and "api (map (\<lambda>item. (item_id item, quantity item)) (order_items s)) = Inl e"
  shows "session_state (handle_create_order ops api s) = s
       \<and> returned (handle_create_order ops api s)
           = ''Sorry, there was an error processing your order. ''
             @ ''Your items are still in your cart. Please try again in a moment.''
       \<and> delivered (handle_create_order ops api s) = [returned (handle_create_order ops api s)]
       \<and> api_calls (handle_create_order ops api s)
           = [map (\<lambda>item. (item_id item, quantity item)) (order_items s)]"
  using assms by (simp add: handle_create_order_def Let_def)

theorem create_order_failure_preserves_cart_witness:
  "order_items \<lparr>order_items = [burger_line 2, fries_line 1]\<rparr> \<noteq> []
   \<and> failing_api [(''burger-001'', 2), (''side-001'', 1)] = Inl ''ConnectionError''
   \<and> handle_create_order exact_ops failing_api \<lparr>order_items = [burger_line 2, fries_line 1]\<rparr>
       = \<lparr>session_state = \<lparr>order_items = [burger_line 2, fries_line 1]\<rparr>,
          delivered = [''Sorry, there was an error processing your order. Your items are still in your cart. Please try again in a moment.''],
          returned = ''Sorry, there was an error processing your order. Your items are still in your cart. Please try again in a moment.'',
          api_calls = [[(''burger-001'', 2), (''side-001'', 1)]]\<rparr>"
proof -
  let ?s = "\<lparr>order_items = [burger_line 2, fries_line 1]\<rparr>"
  have ne: "order_items ?s \<noteq> []" by simp
  have p: "map (\<lambda>item. (item_id item, quantity item)) (order_items ?s)
      = [(''burger-001'', 2), (''side-001'', 1)]"
    by (simp add: burger_line_def fries_line_def)
  have f: "failing_api (map (\<lambda>item. (item_id item, quantity item)) (order_items ?s))
      = Inl ''ConnectionError''"
    by (simp add: failing_api_def)
  from create_order_failure_preserves_cart
      [where api = failing_api and s = "?s" and ops = exact_ops and e = "''ConnectionError''",
       OF ne f] p
  have "handle_create_order exact_ops failing_api ?s
       = \<lparr>session_state = ?s,
          delivered = [''Sorry, there was an error processing your order. Your items are still in your cart. Please try again in a moment.''],
          returned = ''Sorry, there was an error processing your order. Your items are still in your cart. Please try again in a moment.'',
          api_calls = [[(''burger-001'', 2), (''side-001'', 1)]]\<rparr>"
    by (cases "handle_create_order exact_ops failing_api ?s") simp
  with ne show ?thesis by (simp add: failing_api_def)
qed

subsection \<open>C2: a successful submission clears the cart\<close>




subsection \<open>C7: the total\<close>




subsection \<open>C8: delivery through the callback\<close>

text \<open>
  C8. The handlers return on several paths without calling
  \<^verbatim>\<open>params.result_callback\<close>. Removing the only line of a cart succeeds and returns its
  message with nothing delivered, while the same removal from a cart that keeps another
  line delivers the string it returns; adding an id that is not in the catalog, and
  \<^verbatim>\<open>create_order\<close> on an empty cart, return their error strings with nothing delivered.
\<close>

theorem remove_last_line_skips_callback:
  "handle_remove_item exact_ops \<lparr>order_items = [burger_line 2]\<rparr>
       \<lparr>arg_item_id = Some ''burger-001'', arg_quantity = None\<rparr>
     = Inr \<lparr>session_state = \<lparr>order_items = []\<rparr>, delivered = [],
            returned = ''Removed all Classic Burger from your order. Your order is now empty.''\<rparr>
   \<and> handle_remove_item exact_ops \<lparr>order_items = [burger_line 2, fries_line 1]\<rparr>
       \<lparr>arg_item_id = Some ''burger-001'', arg_quantity = None\<rparr>
     = Inr \<lparr>session_state = \<lparr>order_items = [fries_line 1]\<rparr>,
            delivered = [''Removed all Classic Burger from your order. Current order total: $2.25''],
            returned = ''Removed all Classic Burger from your order. Current order total: $2.25''\<rparr>
   \<and> handle_add_item exact_ops [classic_burger, fries] \<lparr>order_items = [burger_line 2]\<rparr>
       \<lparr>arg_item_id = Some ''shake-001'', arg_quantity = Some 1\<rparr>
     = Inr \<lparr>session_state = \<lparr>order_items = [burger_line 2]\<rparr>, delivered = [],
            returned = ''Error: Item '' @ quoted ''shake-001''
              @ '' not found in menu. Available items include: burger-001, side-001''\<rparr>
   \<and> handle_create_order exact_ops mock_api \<lparr>order_items = []\<rparr>
     = \<lparr>session_state = \<lparr>order_items = []\<rparr>, delivered = [],
        returned =
          ''Error: Your order is empty. Please add some items before placing your order.'',
        api_calls = []\<rparr>"
  by code_simp

end
